theory Spec2Isabelle
  imports Complex_Main
begin

section \<open>Result analysis and metrics of the quantum audio integration\<close>

text \<open>
  The development embeds the decision logic of
  \<^verbatim>\<open>src/integrations/qbraid_integration.py\<close> (class
  \<^verbatim>\<open>PitchforkEchoStudioQuantum\<close>): the result analyser
  \<^verbatim>\<open>analyze_audio_effectiveness\<close> with its helpers, the suite runner
  \<^verbatim>\<open>run_all_audio_operations\<close> and the aggregator
  \<^verbatim>\<open>get_audio_performance_metrics\<close>.

  Conventions of the embedding.
  \<^item> Python \<^verbatim>\<open>int\<close> is \<open>int\<close>; Python \<^verbatim>\<open>float\<close> is idealised as \<open>real\<close>
    (no rounding), and \<^verbatim>\<open>math.log2\<close> is \<open>log 2\<close>.
  \<^item> A \<^verbatim>\<open>dict\<close> is an association list in insertion order, which is the order in
    which Python iterates it; a well-formed dictionary has distinct keys.
  \<^item> A raised exception is the \<open>Inl\<close> branch of a sum; \<open>str\<close> gives its description.
  \<^item> Calls to the logger are not modelled.
\<close>

subsection \<open>Exceptions\<close>

datatype py_error =
    ValueError string
  | ZeroDivisionError string
  | RaisedException string

fun str :: "py_error \<Rightarrow> string" where
  "str (ValueError m) = m"
| "str (ZeroDivisionError m) = m"
| "str (RaisedException m) = m"

text \<open>True division \<^verbatim>\<open>a / b\<close> of two integers, and of a float by a number.\<close>

definition int_truediv :: "int \<Rightarrow> int \<Rightarrow> py_error + real" where
  "int_truediv a b =
     (if b = 0 then Inl (ZeroDivisionError ''division by zero'')
      else Inr (real_of_int a / real_of_int b))"

definition float_truediv :: "real \<Rightarrow> real \<Rightarrow> py_error + real" where
  "float_truediv a b =
     (if b = 0 then Inl (ZeroDivisionError ''float division by zero'')
      else Inr (a / b))"

text \<open>\<^verbatim>\<open>math.log2\<close> raises \<^verbatim>\<open>ValueError\<close> outside the positive reals.\<close>

definition math_log2 :: "real \<Rightarrow> py_error + real" where
  "math_log2 x =
     (if x \<le> 0 then Inl (ValueError ''math domain error'') else Inr (log 2 x))"

subsection \<open>Data model\<close>

text \<open>
  \<^verbatim>\<open>JobResult\<close> is imported from the external module \<^verbatim>\<open>qbraid_manager\<close>; the three
  fields below are the ones this module reads. The annotation of
  \<^verbatim>\<open>_calculate_harmony\<close> gives the counts the type \<^verbatim>\<open>Dict[str, int]\<close>.
\<close>

type_synonym counts_dict = "(string \<times> int) list"

record JobResult =
  success :: bool
  counts :: counts_dict
  execution_time :: real

text \<open>
  The dictionary returned by \<^verbatim>\<open>analyze_audio_effectiveness\<close> is either the one-key
  error marker \<^verbatim>\<open>{"error": ...}\<close> or the five-key analysis.
\<close>

record Analysis =
  audio_quality :: real
  optimal_audio :: string
  audio_diversity :: nat
  quantum_harmony :: real
  audio_insights :: "string list"

datatype AnalysisReport =
    ErrorReport string
  | AnalysisDict Analysis

subsection \<open>Built-ins used by the analyser\<close>

text \<open>
  \<^verbatim>\<open>max(items, key=lambda x: x[1])\<close>: the running maximum is replaced only by a
  strictly greater key, so the first maximal item wins; an empty iterable raises
  \<^verbatim>\<open>ValueError\<close> (the message is the one of CPython up to 3.11; later versions word it
  differently).
\<close>

fun max_loop :: "string \<times> int \<Rightarrow> counts_dict \<Rightarrow> string \<times> int" where
  "max_loop best [] = best"
| "max_loop best (item # items) =
     max_loop (if snd item > snd best then item else best) items"

definition py_max :: "counts_dict \<Rightarrow> py_error + string \<times> int" where
  "py_max items =
     (case items of
        [] \<Rightarrow> Inl (ValueError ''max() arg is an empty sequence'')
      | item # rest \<Rightarrow> Inr (max_loop item rest))"

subsection \<open>\<^verbatim>\<open>_calculate_harmony\<close>\<close>

text \<open>
  The loop \<^verbatim>\<open>for count in counts.values()\<close> with the accumulator \<^verbatim>\<open>harmony\<close>
  (\<open>total_sum\<close> is the source's \<^verbatim>\<open>total\<close>).
\<close>

fun harmony_loop :: "int \<Rightarrow> int list \<Rightarrow> real \<Rightarrow> py_error + real" where
  "harmony_loop total_sum [] harmony = Inr harmony"
| "harmony_loop total_sum (count # rest) harmony =
     (if count > 0 then
        (case int_truediv count total_sum of
           Inl e \<Rightarrow> Inl e
         | Inr probability \<Rightarrow>
             (case math_log2 probability of
                Inl e \<Rightarrow> Inl e
              | Inr l \<Rightarrow> harmony_loop total_sum rest (harmony - probability * l)))
      else harmony_loop total_sum rest harmony)"

definition calculate_harmony :: "counts_dict \<Rightarrow> py_error + real" where
  "calculate_harmony cs =
     (let total_sum = sum_list (map snd cs) in
      if total_sum = 0 then Inr 0
      else
        (case harmony_loop total_sum (map snd cs) 0 of
           Inl e \<Rightarrow> Inl e
         | Inr harmony \<Rightarrow> Inr (min 1 (harmony / 4))))"

subsection \<open>\<^verbatim>\<open>_generate_audio_insights\<close>\<close>

definition generate_audio_insights :: "JobResult \<Rightarrow> string list" where
  "generate_audio_insights result =
     (if success result then
        [''Quantum audio synthesis achieved'',
         ''Consciousness-enhanced audio quantum-processed'']
        @ (if execution_time result < 30 then [''Fast audio processing achieved''] else [])
        @ (if length (counts result) > 8
           then [''High audio diversity - excellent creative potential''] else [])
      else [''Fallback to classical audio algorithms recommended''])"

subsection \<open>\<^verbatim>\<open>analyze_audio_effectiveness\<close>\<close>

definition analyze_audio_effectiveness :: "JobResult \<Rightarrow> py_error + AnalysisReport" where
  "analyze_audio_effectiveness result =
     (if \<not> success result then Inr (ErrorReport ''quantum_audio_failed'')
      else
        (let total_shots = sum_list (map snd (counts result)) in
         case py_max (counts result) of
           Inl e \<Rightarrow> Inl e
         | Inr most_common \<Rightarrow>
             (case int_truediv (snd most_common) total_shots of
                Inl e \<Rightarrow> Inl e
              | Inr quality \<Rightarrow>
                  (case calculate_harmony (counts result) of
                     Inl e \<Rightarrow> Inl e
                   | Inr harmony \<Rightarrow>
                       Inr (AnalysisDict
                         \<lparr> audio_quality = quality,
                           optimal_audio = fst most_common,
                           audio_diversity = length (counts result),
                           quantum_harmony = harmony,
                           audio_insights = generate_audio_insights result \<rparr>)))))"

subsection \<open>\<^verbatim>\<open>run_all_audio_operations\<close>\<close>

text \<open>
  An entry of the suite result is either \<^verbatim>\<open>{"quantum_result": r, "audio_analysis": a}\<close>
  or \<^verbatim>\<open>{"error": str(e)}\<close>.
\<close>

datatype SuiteEntry =
    ResultPair JobResult AnalysisReport
  | ErrorEntry string

type_synonym suite_result = "(string \<times> SuiteEntry) list"

text \<open>\<^verbatim>\<open>results[name] = v\<close>: an existing key keeps its position, a new key is appended.\<close>

fun dict_set :: "('k \<times> 'v) list \<Rightarrow> 'k \<Rightarrow> 'v \<Rightarrow> ('k \<times> 'v) list" where
  "dict_set [] k v = [(k, v)]"
| "dict_set ((k', v') # d) k v =
     (if k' = k then (k, v) # d else (k', v') # dict_set d k v)"

text \<open>
  The five operations build a circuit text and hand it to the external manager, whose code
  is not part of this module. Each is therefore a parameter: a transformer of the state
  \<open>'s\<close> of the outside world that either raises or returns a \<^verbatim>\<open>JobResult\<close>.
\<close>

type_synonym 's operation = "'s \<Rightarrow> (py_error + JobResult) \<times> 's"

record 's PitchforkEchoStudioQuantum =
  quantum_audio_synthesis :: "'s operation"
  quantum_consciousness_audio :: "'s operation"
  quantum_echo_optimization :: "'s operation"
  quantum_frequency_harmonization :: "'s operation"
  quantum_spatial_audio :: "'s operation"

text \<open>
  The body of the \<^verbatim>\<open>for\<close> loop: the \<^verbatim>\<open>try\<close> block covers the call of the
  operation and the analysis of its result; \<^verbatim>\<open>except Exception\<close> stores the marker.
\<close>

definition suite_entry :: "py_error + JobResult \<Rightarrow> SuiteEntry" where
  "suite_entry outcome =
     (case outcome of
        Inl e \<Rightarrow> ErrorEntry (str e)
      | Inr quantum_result \<Rightarrow>
          (case analyze_audio_effectiveness quantum_result of
             Inl e \<Rightarrow> ErrorEntry (str e)
           | Inr analysis \<Rightarrow> ResultPair quantum_result analysis))"

fun suite_loop ::
  "(string \<times> 's operation) list \<Rightarrow> suite_result \<Rightarrow> 's \<Rightarrow> suite_result \<times> 's" where
  "suite_loop [] results s = (results, s)"
| "suite_loop ((name, operation) # operations) results s =
     (case operation s of
        (outcome, s') \<Rightarrow>
          suite_loop operations (dict_set results name (suite_entry outcome)) s')"

definition run_all_audio_operations ::
  "'s PitchforkEchoStudioQuantum \<Rightarrow> 's \<Rightarrow> suite_result \<times> 's" where
  "run_all_audio_operations self s =
     suite_loop
       [(''Audio Synthesis'', quantum_audio_synthesis self),
        (''Consciousness Audio'', quantum_consciousness_audio self),
        (''Echo Optimization'', quantum_echo_optimization self),
        (''Frequency Harmonization'', quantum_frequency_harmonization self),
        (''Spatial Audio'', quantum_spatial_audio self)]
       [] s"

subsection \<open>\<^verbatim>\<open>get_audio_performance_metrics\<close>\<close>

record Metrics =
  total_audio_operations :: nat
  successful_operations :: nat
  success_rate :: real
  total_execution_time :: real
  average_execution_time :: real
  average_audio_quality :: real
  audio_quantum_readiness :: string
  recommendations :: "string list"

datatype PerformanceMetrics =
    StatusMarker string
  | MetricsDict Metrics

text \<open>The key test \<^verbatim>\<open>"quantum_result" in result\<close> on an entry.\<close>

fun has_quantum_result :: "SuiteEntry \<Rightarrow> bool" where
  "has_quantum_result (ResultPair quantum_result analysis) = True"
| "has_quantum_result (ErrorEntry m) = False"

text \<open>
  \<^verbatim>\<open>"quantum_result" in r and r["quantum_result"].success\<close>, and the two reads made on
  the selected entries.
\<close>

fun is_successful :: "SuiteEntry \<Rightarrow> bool" where
  "is_successful (ResultPair quantum_result analysis) = success quantum_result"
| "is_successful (ErrorEntry m) = False"

fun entry_execution_time :: "SuiteEntry \<Rightarrow> real" where
  "entry_execution_time (ResultPair quantum_result analysis) = execution_time quantum_result"
| "entry_execution_time (ErrorEntry m) = 0"

text \<open>\<^verbatim>\<open>r["audio_analysis"].get("audio_quality", 0)\<close>\<close>

fun entry_audio_quality :: "SuiteEntry \<Rightarrow> real" where
  "entry_audio_quality (ResultPair quantum_result (AnalysisDict a)) = audio_quality a"
| "entry_audio_quality (ResultPair quantum_result (ErrorReport m)) = 0"
| "entry_audio_quality (ErrorEntry m) = 0"

definition get_audio_performance_metrics :: "suite_result \<Rightarrow> py_error + PerformanceMetrics" where
  "get_audio_performance_metrics results =
     (let successful_ops = filter is_successful (map snd results) in
      if successful_ops = [] then Inr (StatusMarker ''no_successful_audio_operations'')
      else
        (let total_time = sum_list (map entry_execution_time successful_ops) in
         case float_truediv (sum_list (map entry_audio_quality successful_ops))
                (real (length successful_ops)) of
           Inl e \<Rightarrow> Inl e
         | Inr avg_quality \<Rightarrow>
             (case int_truediv (int (length successful_ops)) (int (length results)) of
                Inl e \<Rightarrow> Inl e
              | Inr rate \<Rightarrow>
                  (case float_truediv total_time (real (length successful_ops)) of
                     Inl e \<Rightarrow> Inl e
                   | Inr avg_time \<Rightarrow>
                       Inr (MetricsDict
                         \<lparr> total_audio_operations = length results,
                           successful_operations = length successful_ops,
                           success_rate = rate,
                           total_execution_time = total_time,
                           average_execution_time = avg_time,
                           average_audio_quality = avg_quality,
                           audio_quantum_readiness =
                             (if length successful_ops \<ge> 4 then ''CONSCIOUS''
                              else if length successful_ops \<ge> 2 then ''HARMONIC''
                              else ''DEVELOPING''),
                           recommendations =
                             (if rate \<ge> 0.8
                              then [''Audio system ready for quantum-enhanced production'']
                              else if rate \<ge> 0.6
                              then [''Audio system ready for advanced quantum processing'']
                              else [])
                             @ (if avg_quality \<ge> 0.7
                                then [''Conscious-level audio quality achieved'']
                                else []) \<rparr>)))))"

section \<open>Properties\<close>

subsection \<open>The analyser on a failed result\<close>

text \<open>
  C8. For a \<^verbatim>\<open>JobResult\<close> with \<^verbatim>\<open>success = False\<close> the analyser returns the marker
  \<^verbatim>\<open>{"error": "quantum_audio_failed"}\<close>, whatever the outcome counts are: the result is
  the same for the given counts and for any other counts \<open>cs\<close> put in their place, so
  neither the counts nor any arithmetic on them contributes to it.
\<close>

theorem analyze_failed_result:
  assumes "\<not> success result"
  shows "analyze_audio_effectiveness result = Inr (ErrorReport ''quantum_audio_failed'')
       \<and> analyze_audio_effectiveness (result\<lparr>counts := cs\<rparr>) = Inr (ErrorReport ''quantum_audio_failed'')"
  using assms by (simp add: analyze_audio_effectiveness_def)

theorem analyze_failed_result_witness:
  "analyze_audio_effectiveness \<lparr>success = False, counts = [], execution_time = 2\<rparr>
     = Inr (ErrorReport ''quantum_audio_failed'')
   \<and> analyze_audio_effectiveness \<lparr>success = False, counts = [(''00'', 0)], execution_time = 2\<rparr>
     = Inr (ErrorReport ''quantum_audio_failed'')"
  using analyze_failed_result [of "\<lparr>success = False, counts = [], execution_time = 2\<rparr>" "[(''00'', 0)]"]
  by simp

subsection \<open>The unguarded edge cases of the analyser\<close>

lemma sum_list_all_zero: "\<forall>c \<in> set xs. c = (0::int) \<Longrightarrow> sum_list xs = 0"
  by (induction xs) auto

text \<open>
  C9. The analyser is partial: on a successful result with an empty outcome-count mapping
  it raises \<^verbatim>\<open>ValueError\<close> (from \<^verbatim>\<open>max\<close> of an empty sequence), and on a successful
  result with a non-empty mapping whose counts are all 0 it raises
  \<^verbatim>\<open>ZeroDivisionError\<close>.
\<close>

theorem analyze_not_total:
  "(success result \<and> counts result = [] \<longrightarrow>
      analyze_audio_effectiveness result = Inl (ValueError ''max() arg is an empty sequence''))
   \<and> (success result \<and> counts result \<noteq> [] \<and> (\<forall>c \<in> set (map snd (counts result)). c = 0) \<longrightarrow>
      analyze_audio_effectiveness result = Inl (ZeroDivisionError ''division by zero''))"
proof (intro conjI impI)
  assume "success result \<and> counts result = []"
  then show "analyze_audio_effectiveness result = Inl (ValueError ''max() arg is an empty sequence'')"
    by (simp add: analyze_audio_effectiveness_def py_max_def)
next
  assume a: "success result \<and> counts result \<noteq> [] \<and> (\<forall>c \<in> set (map snd (counts result)). c = 0)"
  then have "sum_list (map snd (counts result)) = 0"
    using sum_list_all_zero by blast
  moreover obtain item rest where "counts result = item # rest"
    using a by (cases "counts result") auto
  ultimately show "analyze_audio_effectiveness result = Inl (ZeroDivisionError ''division by zero'')"
    using a by (simp add: analyze_audio_effectiveness_def py_max_def int_truediv_def)
qed

theorem analyze_not_total_witness:
  "analyze_audio_effectiveness \<lparr>success = True, counts = [], execution_time = 1\<rparr>
     = Inl (ValueError ''max() arg is an empty sequence'')
   \<and> analyze_audio_effectiveness \<lparr>success = True, counts = [(''00'', 0), (''11'', 0)], execution_time = 1\<rparr>
     = Inl (ZeroDivisionError ''division by zero'')"
  using analyze_not_total [of "\<lparr>success = True, counts = [], execution_time = 1\<rparr>"]
    analyze_not_total [of "\<lparr>success = True, counts = [(''00'', 0), (''11'', 0)], execution_time = 1\<rparr>"]
  by simp

subsection \<open>The aggregator without successful operations\<close>

text \<open>No division of the aggregator has a zero divisor: it returns on every input.\<close>

lemma metrics_never_raises: "\<exists>m. get_audio_performance_metrics results = Inr m"
proof -
  define successful_ops where "successful_ops = filter is_successful (map snd results)"
  show ?thesis
  proof (cases "successful_ops = []")
    case True
    then show ?thesis
      unfolding get_audio_performance_metrics_def successful_ops_def [symmetric]
      by (simp add: Let_def)
  next
    case False
    then have "length successful_ops \<noteq> 0" by simp
    moreover have "results \<noteq> []"
      using False unfolding successful_ops_def by (cases results) simp_all
    ultimately show ?thesis
      using False
      unfolding get_audio_performance_metrics_def successful_ops_def [symmetric]
      by (simp add: Let_def float_truediv_def int_truediv_def)
  qed
qed

text \<open>
  C5. When no entry of the suite result holds a \<^verbatim>\<open>JobResult\<close> with
  \<^verbatim>\<open>success = True\<close>, the aggregator returns exactly the marker
  \<^verbatim>\<open>{"status": "no_successful_audio_operations"}\<close>; it returns normally, so no division
  (each of which is modelled with its \<^verbatim>\<open>ZeroDivisionError\<close>) has failed.
\<close>

theorem metrics_no_success:
  assumes "\<forall>(name, entry) \<in> set results. \<forall>r a. entry = ResultPair r a \<longrightarrow> \<not> success r"
  shows "get_audio_performance_metrics results = Inr (StatusMarker ''no_successful_audio_operations'')"
proof -
  have "\<not> is_successful entry" if "entry \<in> set (map snd results)" for entry
  proof (cases entry)
    case (ResultPair r a)
    from that obtain name where "(name, entry) \<in> set results" by auto
    with assms ResultPair have "\<not> success r" by blast
    with ResultPair show ?thesis by simp
  next
    case (ErrorEntry m)
    then show ?thesis by simp
  qed
  then have "filter is_successful (map snd results) = []"
    by (simp add: filter_empty_conv)
  then show ?thesis
    by (simp add: get_audio_performance_metrics_def)
qed

theorem metrics_no_success_witness:
  "get_audio_performance_metrics
     [(''Audio Synthesis'', ErrorEntry ''boom''),
      (''Echo Optimization'',
         ResultPair \<lparr>success = False, counts = [], execution_time = 3\<rparr>
           (ErrorReport ''quantum_audio_failed''))]
   = Inr (StatusMarker ''no_successful_audio_operations'')"
  using metrics_no_success [of
     "[(''Audio Synthesis'', ErrorEntry ''boom''),
      (''Echo Optimization'',
         ResultPair \<lparr>success = False, counts = [], execution_time = 3\<rparr>
           (ErrorReport ''quantum_audio_failed''))]"]
  by simp

subsection \<open>The analyser on a successful result\<close>

lemma snd_max_loop_fold: "snd (max_loop best items) = fold max (map snd items) (snd best)"
proof (induction items arbitrary: best)
  case Nil
  then show ?case by simp
next
  case (Cons item items)
  have "snd (if snd item > snd best then item else best) = max (snd item) (snd best)"
    by (simp add: max_def)
  with Cons.IH [of "if snd item > snd best then item else best"] show ?case
    by simp
qed

lemma snd_max_loop: "snd (max_loop best items) = Max (set (map snd (best # items)))"
  by (simp only: snd_max_loop_fold list.map Max.set_eq_fold)

lemma member_le_sum_list_int:
  "\<forall>c \<in> set xs. (0::int) \<le> c \<Longrightarrow> x \<in> set xs \<Longrightarrow> x \<le> sum_list xs"
proof (induction xs)
  case Nil
  then show ?case by simp
next
  case (Cons y ys)
  have "0 \<le> sum_list ys" using Cons.prems(1) by (simp add: sum_list_nonneg)
  then show ?case using Cons by auto
qed

lemma harmony_loop_step:
  assumes "0 < c" and "0 < total_sum"
  shows "harmony_loop total_sum (c # cs) harmony =
           harmony_loop total_sum cs
             (harmony - real_of_int c / real_of_int total_sum
                        * log 2 (real_of_int c / real_of_int total_sum))"
proof -
  have "0 < real_of_int c / real_of_int total_sum"
    using assms by simp
  then have "\<not> real_of_int c / real_of_int total_sum \<le> 0"
    by (simp only: not_le)
  moreover have "total_sum \<noteq> 0" using assms(2) by simp
  ultimately show ?thesis
    using assms(1) by (simp only: harmony_loop.simps int_truediv_def math_log2_def if_True if_False sum.case)
qed

lemma harmony_loop_skip:
  "\<not> 0 < c \<Longrightarrow> harmony_loop total_sum (c # cs) harmony = harmony_loop total_sum cs harmony"
  by simp

lemma harmony_loop_returns:
  "0 < total_sum \<Longrightarrow> \<exists>h. harmony_loop total_sum cs harmony = Inr h"
proof (induction cs arbitrary: harmony)
  case Nil
  then show ?case by simp
next
  case (Cons c cs)
  show ?case
  proof (cases "0 < c")
    case True
    show ?thesis
      unfolding harmony_loop_step [OF True Cons.prems] by (rule Cons.IH [OF Cons.prems])
  next
    case False
    show ?thesis
      unfolding harmony_loop_skip [OF False] by (rule Cons.IH [OF Cons.prems])
  qed
qed

lemma calculate_harmony_returns:
  "0 \<le> sum_list (map snd cs) \<Longrightarrow> \<exists>h. calculate_harmony cs = Inr h"
proof (cases "sum_list (map snd cs) = 0")
  case True
  then show ?thesis by (simp add: calculate_harmony_def)
next
  case False
  assume "0 \<le> sum_list (map snd cs)"
  with False have "0 < sum_list (map snd cs)" by simp
  from harmony_loop_returns [OF this, of "map snd cs" 0]
  obtain h where "harmony_loop (sum_list (map snd cs)) (map snd cs) 0 = Inr h" by blast
  with False show ?thesis by (simp add: calculate_harmony_def)
qed

lemma analyze_returns:
  assumes "success result" and "counts result = item # rest"
    and "0 < sum_list (map snd (counts result))"
  shows "\<exists>h. calculate_harmony (counts result) = Inr h
           \<and> analyze_audio_effectiveness result =
               Inr (AnalysisDict
                 \<lparr> audio_quality = real_of_int (snd (max_loop item rest))
                                     / real_of_int (sum_list (map snd (counts result))),
                   optimal_audio = fst (max_loop item rest),
                   audio_diversity = length (counts result),
                   quantum_harmony = h,
                   audio_insights = generate_audio_insights result \<rparr>)"
proof -
  from assms(3) have "0 \<le> sum_list (map snd (counts result))" by simp
  from calculate_harmony_returns [OF this]
  obtain h where h: "calculate_harmony (counts result) = Inr h" by blast
  have nz: "sum_list (map snd (counts result)) \<noteq> 0" using assms(3) by simp
  have "analyze_audio_effectiveness result =
               Inr (AnalysisDict
                 \<lparr> audio_quality = real_of_int (snd (max_loop item rest))
                                     / real_of_int (sum_list (map snd (counts result))),
                   optimal_audio = fst (max_loop item rest),
                   audio_diversity = length (counts result),
                   quantum_harmony = h,
                   audio_insights = generate_audio_insights result \<rparr>)"
    unfolding analyze_audio_effectiveness_def Let_def py_max_def int_truediv_def
    using assms(1) nz h by (simp add: assms(2))
  with h show ?thesis by blast
qed

text \<open>
  C1. For a successful result with a non-empty outcome-count mapping (counts non-negative,
  as in the data model) whose counts sum to \<open>N > 0\<close>, the analyser returns an analysis
  whose \<^verbatim>\<open>audio_quality\<close> is the maximum count divided by \<open>N\<close>, and that value lies
  in \<open>[0, 1]\<close>.
\<close>

theorem quality_is_max_over_total:
  assumes "success result" and "counts result \<noteq> []"
    and "\<forall>c \<in> set (map snd (counts result)). 0 \<le> c"
    and "0 < sum_list (map snd (counts result))"
  shows "\<exists>a. analyze_audio_effectiveness result = Inr (AnalysisDict a)
           \<and> audio_quality a = real_of_int (Max (set (map snd (counts result))))
                                / real_of_int (sum_list (map snd (counts result)))
           \<and> 0 \<le> audio_quality a \<and> audio_quality a \<le> 1"
proof -
  from assms(2) obtain item rest where cs: "counts result = item # rest"
    by (cases "counts result") auto
  let ?n = "sum_list (map snd (counts result))"
  let ?m = "Max (set (map snd (counts result)))"
  from analyze_returns [OF assms(1) cs assms(4)]
  obtain h where a: "analyze_audio_effectiveness result =
               Inr (AnalysisDict
                 \<lparr> audio_quality = real_of_int (snd (max_loop item rest)) / real_of_int ?n,
                   optimal_audio = fst (max_loop item rest),
                   audio_diversity = length (counts result),
                   quantum_harmony = h,
                   audio_insights = generate_audio_insights result \<rparr>)"
    by blast
  have m: "snd (max_loop item rest) = ?m"
    by (simp only: snd_max_loop cs)
  have "?m \<in> set (map snd (counts result))"
    using assms(2) by (intro Max_in) simp_all
  then have "0 \<le> ?m" and "?m \<le> ?n"
    using assms(3) member_le_sum_list_int by blast+
  then have "0 \<le> real_of_int ?m / real_of_int ?n" and "real_of_int ?m / real_of_int ?n \<le> 1"
    using assms(4) by simp_all
  with a m show ?thesis by simp
qed

theorem quality_is_max_over_total_witness:
  "\<exists>a. analyze_audio_effectiveness
          \<lparr>success = True, counts = [(''00'', 1), (''11'', 3)], execution_time = 1\<rparr>
        = Inr (AnalysisDict a)
       \<and> audio_quality a = 3 / 4 \<and> 0 \<le> audio_quality a \<and> audio_quality a \<le> 1"
  using quality_is_max_over_total
    [of "\<lparr>success = True, counts = [(''00'', 1), (''11'', 3)], execution_time = 1\<rparr>"]
  by simp

subsection \<open>Diversity\<close>

text \<open>
  C2, as stated, fails: \<^verbatim>\<open>audio_diversity\<close> is \<^verbatim>\<open>len(result.counts)\<close>, so a label
  that is present with count 0 is counted. For the counts \<^verbatim>\<open>{"00": 5, "11": 0}\<close> the
  analyser returns diversity 2, while one label has a count greater than 0.
\<close>

theorem diversity_counts_zero_labels:
  "analyze_audio_effectiveness
     \<lparr>success = True, counts = [(''00'', 5), (''11'', 0)], execution_time = 1\<rparr>
   = Inr (AnalysisDict
       \<lparr>audio_quality = 1, optimal_audio = ''00'', audio_diversity = 2, quantum_harmony = 0,
        audio_insights = [''Quantum audio synthesis achieved'',
                          ''Consciousness-enhanced audio quantum-processed'',
                          ''Fast audio processing achieved'']\<rparr>)
   \<and> length (filter (\<lambda>item. 0 < snd item) [(''00'', 5::int), (''11'', 0)]) = 1"
  by (simp add: analyze_audio_effectiveness_def py_max_def int_truediv_def
      calculate_harmony_def math_log2_def generate_audio_insights_def)

lemma length_filter_eq_iff:
  "length (filter P xs) = length xs \<longleftrightarrow> (\<forall>x \<in> set xs. P x)"
proof
  assume eq: "length (filter P xs) = length xs"
  show "\<forall>x \<in> set xs. P x"
  proof (rule ccontr)
    assume "\<not> (\<forall>x \<in> set xs. P x)"
    then obtain x where "x \<in> set xs" and "\<not> P x" by blast
    then have "length (filter P xs) < length xs" by (rule length_filter_less)
    with eq show False by simp
  qed
next
  assume "\<forall>x \<in> set xs. P x"
  then show "length (filter P xs) = length xs" by simp
qed

text \<open>
  C2, amended. For a successful result with a non-empty outcome-count mapping whose
  counts sum to \<open>N > 0\<close>, \<^verbatim>\<open>audio_diversity\<close> is the number of labels present in the
  mapping, zero-count labels included; it equals the number of labels with a count
  greater than 0 exactly when every label of the mapping has a count greater than 0.
\<close>

theorem diversity_is_len:
  assumes "success result" and "counts result \<noteq> []"
    and "0 < sum_list (map snd (counts result))"
  shows "\<exists>a. analyze_audio_effectiveness result = Inr (AnalysisDict a)
           \<and> audio_diversity a = length (counts result)
           \<and> (audio_diversity a = length (filter (\<lambda>item. 0 < snd item) (counts result))
                \<longleftrightarrow> (\<forall>item \<in> set (counts result). 0 < snd item))"
proof -
  from assms(2) obtain item rest where cs: "counts result = item # rest"
    by (cases "counts result") auto
  from analyze_returns [OF assms(1) cs assms(3)]
  obtain a where a: "analyze_audio_effectiveness result = Inr (AnalysisDict a)"
    and d: "audio_diversity a = length (counts result)"
    by force
  have "length (counts result) = length (filter (\<lambda>item. 0 < snd item) (counts result))
          \<longleftrightarrow> (\<forall>item \<in> set (counts result). 0 < snd item)"
    using length_filter_eq_iff [of "\<lambda>item. 0 < snd item" "counts result"] by metis
  with a d show ?thesis by simp
qed

theorem diversity_is_len_witness:
  "\<exists>a. analyze_audio_effectiveness
          \<lparr>success = True, counts = [(''00'', 5), (''01'', 0), (''11'', 2)], execution_time = 1\<rparr>
        = Inr (AnalysisDict a)
       \<and> audio_diversity a = 3
       \<and> audio_diversity a \<noteq> length (filter (\<lambda>item. 0 < snd item) [(''00'', 5::int), (''01'', 0), (''11'', 2)])"
  using diversity_is_len
    [of "\<lparr>success = True, counts = [(''00'', 5), (''01'', 0), (''11'', 2)], execution_time = 1\<rparr>"]
  by (auto simp: numeral_3_eq_3)

subsection \<open>Harmony\<close>

lemma entropy_term_nonpos:
  assumes "0 < c" and "c \<le> total_sum"
  shows "real_of_int c / real_of_int total_sum * log 2 (real_of_int c / real_of_int total_sum) \<le> 0"
proof -
  let ?p = "real_of_int c / real_of_int total_sum"
  have "0 < ?p" and "?p \<le> 1" using assms by simp_all
  then have "log 2 ?p \<le> 0" by simp
  moreover from \<open>0 < ?p\<close> have "0 \<le> ?p" by (rule less_imp_le)
  ultimately show ?thesis by (intro mult_nonneg_nonpos)
qed

lemma harmony_loop_grows:
  assumes "0 < total_sum" and "\<forall>c \<in> set cs. c \<le> total_sum"
  shows "\<exists>h. harmony_loop total_sum cs harmony = Inr h \<and> harmony \<le> h"
  using assms(2)
proof (induction cs arbitrary: harmony)
  case Nil
  then show ?case by simp
next
  case (Cons c cs)
  then have le: "c \<le> total_sum" and rest: "\<forall>c \<in> set cs. c \<le> total_sum" by simp_all
  show ?case
  proof (cases "0 < c")
    case True
    let ?t = "real_of_int c / real_of_int total_sum * log 2 (real_of_int c / real_of_int total_sum)"
    from Cons.IH [OF rest, of "harmony - ?t"]
    obtain h where "harmony_loop total_sum cs (harmony - ?t) = Inr h" and "harmony - ?t \<le> h"
      by blast
    moreover have "?t \<le> 0" using True le by (rule entropy_term_nonpos)
    ultimately show ?thesis
      unfolding harmony_loop_step [OF True assms(1)] by simp
  next
    case False
    show ?thesis
      unfolding harmony_loop_skip [OF False] by (rule Cons.IH [OF rest])
  qed
qed

lemma harmony_loop_single:
  assumes "0 < total_sum" and "\<forall>c \<in> set cs. c = 0 \<or> c = total_sum"
  shows "harmony_loop total_sum cs harmony = Inr harmony"
  using assms(2)
proof (induction cs)
  case Nil
  then show ?case by simp
next
  case (Cons c cs)
  then have c: "c = 0 \<or> c = total_sum" and rest: "\<forall>c \<in> set cs. c = 0 \<or> c = total_sum"
    by simp_all
  show ?case
  proof (cases "0 < c")
    case True
    with c have "c = total_sum" by simp
    then have "real_of_int c / real_of_int total_sum = 1" using assms(1) by simp
    then show ?thesis
      unfolding harmony_loop_step [OF True assms(1)] using Cons.IH [OF rest] by simp
  next
    case False
    show ?thesis
      unfolding harmony_loop_skip [OF False] by (rule Cons.IH [OF rest])
  qed
qed

lemma single_outcome_sum:
  fixes cs :: counts_dict
  assumes "distinct (map fst cs)" and "(label, n) \<in> set cs"
    and "\<forall>(label', c) \<in> set cs. label' \<noteq> label \<longrightarrow> c = 0"
  shows "sum_list (map snd cs) = n"
  using assms
proof (induction cs)
  case Nil
  then show ?case by simp
next
  case (Cons item cs)
  obtain k c where item: "item = (k, c)" by (cases item)
  from Cons.prems(1) item have notin: "k \<notin> fst ` set cs" and dist: "distinct (map fst cs)"
    by simp_all
  from Cons.prems(3) have rest: "\<forall>(label', c) \<in> set cs. label' \<noteq> label \<longrightarrow> c = 0"
    by simp
  show ?case
  proof (cases "(label, n) \<in> set cs")
    case True
    then have "label \<in> fst ` set cs" by force
    with notin have "k \<noteq> label" by blast
    with Cons.prems(3) item have "c = 0" by simp
    with Cons.IH [OF dist True rest] item show ?thesis by simp
  next
    case False
    with Cons.prems(2) item have eq: "k = label" "c = n" by simp_all
    have "\<forall>x \<in> set (map snd cs). x = 0"
    proof
      fix x assume "x \<in> set (map snd cs)"
      then obtain k' where in_cs: "(k', x) \<in> set cs" by auto
      then have "k' \<in> fst ` set cs" by force
      with notin eq have "k' \<noteq> label" by blast
      with rest in_cs show "x = 0" by blast
    qed
    then have "sum_list (map snd cs) = 0" by (rule sum_list_all_zero)
    with item eq show ?thesis by simp
  qed
qed

text \<open>
  C3. For every outcome-count mapping (counts non-negative, as in the data model)
  \<^verbatim>\<open>_calculate_harmony\<close> returns a value in \<open>[0, 1]\<close>; and when the mapping is a
  dictionary in which one label carries all the mass (a positive count, every other label
  count 0), the harmony is 0.
\<close>

theorem harmony_in_unit_interval:
  assumes "\<forall>c \<in> set (map snd cs). 0 \<le> c"
  shows "\<exists>h. calculate_harmony cs = Inr h \<and> 0 \<le> h \<and> h \<le> 1
           \<and> (distinct (map fst cs)
                \<and> (\<exists>label n. (label, n) \<in> set cs \<and> 0 < n
                       \<and> (\<forall>(label', c) \<in> set cs. label' \<noteq> label \<longrightarrow> c = 0))
               \<longrightarrow> h = 0)"
proof (cases "sum_list (map snd cs) = 0")
  case True
  then show ?thesis by (simp add: calculate_harmony_def)
next
  case False
  let ?total = "sum_list (map snd cs)"
  have "0 \<le> ?total" using assms by (intro sum_list_nonneg) blast
  with False have pos: "0 < ?total" by simp
  have "\<forall>c \<in> set (map snd cs). c \<le> ?total"
    using assms member_le_sum_list_int by blast
  from harmony_loop_grows [OF pos this, of 0]
  obtain h0 where h0: "harmony_loop ?total (map snd cs) 0 = Inr h0" and "0 \<le> h0"
    by blast
  have result: "calculate_harmony cs = Inr (min 1 (h0 / 4))"
    using False h0 by (simp add: calculate_harmony_def)
  have range: "0 \<le> min 1 (h0 / 4)" "min 1 (h0 / 4) \<le> 1"
    using \<open>0 \<le> h0\<close> by simp_all
  have single: "min 1 (h0 / 4) = 0"
    if dist: "distinct (map fst cs)"
      and one: "\<exists>label n. (label, n) \<in> set cs \<and> 0 < n
                  \<and> (\<forall>(label', c) \<in> set cs. label' \<noteq> label \<longrightarrow> c = 0)"
  proof -
    from one obtain label n where mem: "(label, n) \<in> set cs"
      and others: "\<forall>(label', c) \<in> set cs. label' \<noteq> label \<longrightarrow> c = 0"
      by blast
    have total: "?total = n" using dist mem others by (rule single_outcome_sum)
    have "\<forall>c \<in> set (map snd cs). c = 0 \<or> c = ?total"
    proof
      fix c assume "c \<in> set (map snd cs)"
      then obtain k where in_cs: "(k, c) \<in> set cs" by auto
      show "c = 0 \<or> c = ?total"
      proof (cases "k = label")
        case True
        with dist mem in_cs have "c = n" by (metis eq_key_imp_eq_value)
        with total show ?thesis by simp
      next
        case False
        with others in_cs show ?thesis by blast
      qed
    qed
    from harmony_loop_single [OF pos this, of 0] h0 have "h0 = 0" by simp
    then show ?thesis by simp
  qed
  from result range single show ?thesis by blast
qed

theorem harmony_in_unit_interval_witness:
  "calculate_harmony [(''0000'', 7), (''1111'', 0)] = Inr 0
   \<and> (\<exists>h. calculate_harmony [(''00'', 1), (''11'', 1)] = Inr h \<and> 0 \<le> h \<and> h \<le> 1)"
proof -
  have "\<exists>label n. (label, n) \<in> set [(''0000'', 7::int), (''1111'', 0)] \<and> 0 < n
          \<and> (\<forall>(label', c) \<in> set [(''0000'', 7::int), (''1111'', 0)]. label' \<noteq> label \<longrightarrow> c = 0)"
    by (rule exI [of _ "''0000''"], rule exI [of _ 7]) simp
  then have "calculate_harmony [(''0000'', 7), (''1111'', 0)] = Inr 0"
    using harmony_in_unit_interval [of "[(''0000'', 7), (''1111'', 0)]"] by simp
  moreover have "\<exists>h. calculate_harmony [(''00'', 1), (''11'', 1)] = Inr h \<and> 0 \<le> h \<and> h \<le> 1"
    using harmony_in_unit_interval [of "[(''00'', 1), (''11'', 1)]"] by simp
  ultimately show ?thesis by simp
qed

subsection \<open>The scenario with counts 80 and 20\<close>

lemma log2_5_lower: "339 / 146 < log 2 (5::real)"
proof -
  have "(2::real) ^ 339 < 5 ^ 146" by simp
  then have "log 2 ((2::real) ^ 339) < log 2 (5 ^ 146)"
    by (subst log_less_cancel_iff) simp_all
  moreover have "log 2 ((2::real) ^ 339) = real 339 * log 2 2"
    by (rule log_nat_power) simp
  moreover have "log 2 ((5::real) ^ 146) = real 146 * log 2 5"
    by (rule log_nat_power) simp
  ultimately have "real 339 * log 2 2 < real 146 * log 2 (5::real)"
    by (simp only:)
  then show ?thesis by simp
qed

lemma log2_5_upper: "log 2 (5::real) < 137 / 59"
proof -
  have "(5::real) ^ 59 < 2 ^ 137" by simp
  then have "log 2 ((5::real) ^ 59) < log 2 (2 ^ 137)"
    by (subst log_less_cancel_iff) simp_all
  moreover have "log 2 ((2::real) ^ 137) = real 137 * log 2 2"
    by (rule log_nat_power) simp
  moreover have "log 2 ((5::real) ^ 59) = real 59 * log 2 5"
    by (rule log_nat_power) simp
  ultimately have "real 59 * log 2 (5::real) < real 137 * log 2 2"
    by (simp only:)
  then show ?thesis by simp
qed

lemma log2_four_fifths: "log 2 (4 / 5 :: real) = 2 - log 2 5"
proof -
  have "log 2 (4 / 5 :: real) = log 2 4 - log 2 5"
    by (rule log_divide_pos) simp_all
  moreover have "log 2 ((2::real) ^ 2) = real 2 * log 2 2"
    by (rule log_nat_power) simp
  then have "log 2 (4::real) = 2" by simp
  ultimately show ?thesis by simp
qed

lemma log2_one_fifth: "log 2 (1 / 5 :: real) = - log 2 5"
  by (rule log_recip)

lemma scenario_harmony_value:
  "- (0.8 * log 2 (0.8::real) + 0.2 * log 2 0.2) / 4 = (log 2 5 - 8 / 5) / 4"
proof -
  have "(0.8::real) = 4 / 5" and "(0.2::real) = 1 / 5" by simp_all
  then show ?thesis
    by (simp only: log2_four_fifths log2_one_fifth) (simp add: field_simps)
qed

lemma scenario_harmony_loop:
  "harmony_loop 100 [80, 20] 0 = Inr (- (0.8 * log 2 0.8 + 0.2 * log 2 0.2))"
proof -
  have a: "harmony_loop 100 [80, 20] 0
           = harmony_loop 100 [20] (0 - real_of_int 80 / real_of_int 100 * log 2 (real_of_int 80 / real_of_int 100))"
    by (rule harmony_loop_step) simp_all
  have b: "harmony_loop 100 [20] h
           = harmony_loop 100 [] (h - real_of_int 20 / real_of_int 100 * log 2 (real_of_int 20 / real_of_int 100))" for h
    by (rule harmony_loop_step) simp_all
  have "real_of_int 80 / real_of_int 100 = (0.8::real)" "real_of_int 20 / real_of_int 100 = (0.2::real)"
    by simp_all
  then show ?thesis
    unfolding a b by (simp only: harmony_loop.simps) (simp add: algebra_simps)
qed

lemma scenario_calculate_harmony:
  "calculate_harmony [(''0101'', 80), (''1010'', 20)]
     = Inr (- (0.8 * log 2 0.8 + 0.2 * log 2 0.2) / 4)"
proof -
  have "- (0.8 * log 2 (0.8::real) + 0.2 * log 2 0.2) / 4 \<le> 1"
    unfolding scenario_harmony_value using log2_5_upper by simp
  then have "min 1 (- (0.8 * log 2 (0.8::real) + 0.2 * log 2 0.2) / 4)
               = - (0.8 * log 2 0.8 + 0.2 * log 2 0.2) / 4"
    by (rule min_absorb2)
  moreover have "sum_list (map snd [(''0101'', 80::int), (''1010'', 20)]) = 100"
    "map snd [(''0101'', 80::int), (''1010'', 20)] = [80, 20]"
    by simp_all
  ultimately show ?thesis
    unfolding calculate_harmony_def Let_def
    by (simp only: scenario_harmony_loop sum.case) simp
qed


lemma scenario_harmony_bounds:
  "0.18047 < - (0.8 * log 2 (0.8::real) + 0.2 * log 2 0.2) / 4"
  "- (0.8 * log 2 (0.8::real) + 0.2 * log 2 0.2) / 4 < 0.18051"
  unfolding scenario_harmony_value using log2_5_lower log2_5_upper by simp_all

text \<open>
  C4, as stated, fails in its last figure: on the counts \<^verbatim>\<open>{"0101": 80, "1010": 20}\<close>
  the analyser returns the harmony \<open>-(0.8 * log2 0.8 + 0.2 * log2 0.2) / 4\<close>, and this
  number is below 0.1842 by more than 0.0036.
\<close>

theorem scenario_harmony_not_01842:
  "analyze_audio_effectiveness
     \<lparr>success = True, counts = [(''0101'', 80), (''1010'', 20)], execution_time = 1\<rparr>
   = Inr (AnalysisDict
       \<lparr>audio_quality = 0.8, optimal_audio = ''0101'', audio_diversity = 2,
        quantum_harmony = - (0.8 * log 2 0.8 + 0.2 * log 2 0.2) / 4,
        audio_insights = [''Quantum audio synthesis achieved'',
                          ''Consciousness-enhanced audio quantum-processed'',
                          ''Fast audio processing achieved'']\<rparr>)
   \<and> 0.0036 < 0.1842 - (- (0.8 * log 2 (0.8::real) + 0.2 * log 2 0.2) / 4)"
proof -
  have "py_max [(''0101'', 80), (''1010'', 20)] = Inr (''0101'', 80)"
    by (simp add: py_max_def)
  moreover have "int_truediv 80 100 = Inr 0.8"
    by (simp add: int_truediv_def)
  ultimately have "analyze_audio_effectiveness
     \<lparr>success = True, counts = [(''0101'', 80), (''1010'', 20)], execution_time = 1\<rparr>
   = Inr (AnalysisDict
       \<lparr>audio_quality = 0.8, optimal_audio = ''0101'', audio_diversity = 2,
        quantum_harmony = - (0.8 * log 2 0.8 + 0.2 * log 2 0.2) / 4,
        audio_insights = [''Quantum audio synthesis achieved'',
                          ''Consciousness-enhanced audio quantum-processed'',
                          ''Fast audio processing achieved'']\<rparr>)"
    by (simp add: analyze_audio_effectiveness_def scenario_calculate_harmony
        generate_audio_insights_def)
  moreover have "0.0036 < 0.1842 - (- (0.8 * log 2 (0.8::real) + 0.2 * log 2 0.2) / 4)"
  proof -
    have "x < 0.18051 \<Longrightarrow> 0.0036 < 0.1842 - x" for x :: real by simp
    from this [OF scenario_harmony_bounds(2)] show ?thesis .
  qed
  ultimately show ?thesis by (rule conjI)
qed

text \<open>
  C4, amended. For the successful result with counts \<^verbatim>\<open>{"0101": 80, "1010": 20}\<close>
  (any execution time) the analyser returns \<^verbatim>\<open>audio_quality\<close> 0.8,
  \<^verbatim>\<open>optimal_audio\<close> \<^verbatim>\<open>"0101"\<close>, \<^verbatim>\<open>audio_diversity\<close> 2 and \<^verbatim>\<open>quantum_harmony\<close>
  \<open>-(0.8 * log2 0.8 + 0.2 * log2 0.2) / 4\<close>, which is 0.1805 to four decimal places.
\<close>

theorem scenario_analysis:
  "analyze_audio_effectiveness
     \<lparr>success = True, counts = [(''0101'', 80), (''1010'', 20)], execution_time = t\<rparr>
   = Inr (AnalysisDict
       \<lparr>audio_quality = 0.8, optimal_audio = ''0101'', audio_diversity = 2,
        quantum_harmony = - (0.8 * log 2 0.8 + 0.2 * log 2 0.2) / 4,
        audio_insights = generate_audio_insights
          \<lparr>success = True, counts = [(''0101'', 80), (''1010'', 20)], execution_time = t\<rparr>\<rparr>)
   \<and> \<bar>- (0.8 * log 2 (0.8::real) + 0.2 * log 2 0.2) / 4 - 0.1805\<bar> < 0.00005"
proof -
  have "py_max [(''0101'', 80), (''1010'', 20)] = Inr (''0101'', 80)"
    by (simp add: py_max_def)
  moreover have "int_truediv 80 100 = Inr 0.8"
    by (simp add: int_truediv_def)
  ultimately have "analyze_audio_effectiveness
     \<lparr>success = True, counts = [(''0101'', 80), (''1010'', 20)], execution_time = t\<rparr>
   = Inr (AnalysisDict
       \<lparr>audio_quality = 0.8, optimal_audio = ''0101'', audio_diversity = 2,
        quantum_harmony = - (0.8 * log 2 0.8 + 0.2 * log 2 0.2) / 4,
        audio_insights = generate_audio_insights
          \<lparr>success = True, counts = [(''0101'', 80), (''1010'', 20)], execution_time = t\<rparr>\<rparr>)"
    by (simp add: analyze_audio_effectiveness_def scenario_calculate_harmony)
  moreover have "\<bar>- (0.8 * log 2 (0.8::real) + 0.2 * log 2 0.2) / 4 - 0.1805\<bar> < 0.00005"
  proof -
    have "0.18047 < x \<Longrightarrow> x < 0.18051 \<Longrightarrow> \<bar>x - 0.1805\<bar> < 0.00005" for x :: real
      unfolding abs_less_iff by simp
    from this [OF scenario_harmony_bounds] show ?thesis .
  qed
  ultimately show ?thesis by (rule conjI)
qed

subsection \<open>The suite runner\<close>

text \<open>
  The entry stored for an operation, by what the operation and the analysis of its result
  do; and the suite result when the five operations are run in order from the state
  \<open>s0\<close>, each on the state left by the one before.
\<close>

lemma suite_entry_raise: "suite_entry (Inl e) = ErrorEntry (str e)"
  by (simp add: suite_entry_def)

lemma suite_entry_return:
  "analyze_audio_effectiveness r = Inr a \<Longrightarrow> suite_entry (Inr r) = ResultPair r a"
  by (simp add: suite_entry_def)

lemma suite_entry_analysis_raise:
  "analyze_audio_effectiveness r = Inl e \<Longrightarrow> suite_entry (Inr r) = ErrorEntry (str e)"
  by (simp add: suite_entry_def)

lemma run_all_threads:
  assumes "quantum_audio_synthesis self s0 = (o1, s1)"
    and "quantum_consciousness_audio self s1 = (o2, s2)"
    and "quantum_echo_optimization self s2 = (o3, s3)"
    and "quantum_frequency_harmonization self s3 = (o4, s4)"
    and "quantum_spatial_audio self s4 = (o5, s5)"
  shows "run_all_audio_operations self s0 =
           ([(''Audio Synthesis'', suite_entry o1),
             (''Consciousness Audio'', suite_entry o2),
             (''Echo Optimization'', suite_entry o3),
             (''Frequency Harmonization'', suite_entry o4),
             (''Spatial Audio'', suite_entry o5)], s5)"
  by (simp add: run_all_audio_operations_def assms)

text \<open>
  C6, as stated, fails: the \<^verbatim>\<open>try\<close> block also covers the analysis, so an operation
  that returns a result on which the analysis raises is stored as an error marker. Below,
  exactly two operations raise and three return a result, one of them a successful result
  with empty counts; the suite result holds three error markers and two pairs.
\<close>

theorem suite_analysis_failure_is_error_entry:
  "run_all_audio_operations
     \<lparr>quantum_audio_synthesis =
        Pair (Inr \<lparr>success = True, counts = [(''0000'', 1)], execution_time = 1\<rparr>),
      quantum_consciousness_audio = Pair (Inl (RaisedException ''device unavailable'')),
      quantum_echo_optimization =
        Pair (Inr \<lparr>success = True, counts = [], execution_time = 1\<rparr>),
      quantum_frequency_harmonization = Pair (Inl (RaisedException ''timeout'')),
      quantum_spatial_audio =
        Pair (Inr \<lparr>success = False, counts = [], execution_time = 1\<rparr>)\<rparr> ()
   = ([(''Audio Synthesis'',
          ResultPair \<lparr>success = True, counts = [(''0000'', 1)], execution_time = 1\<rparr>
            (AnalysisDict
              \<lparr>audio_quality = 1, optimal_audio = ''0000'', audio_diversity = 1,
               quantum_harmony = 0,
               audio_insights = [''Quantum audio synthesis achieved'',
                                 ''Consciousness-enhanced audio quantum-processed'',
                                 ''Fast audio processing achieved'']\<rparr>)),
       (''Consciousness Audio'', ErrorEntry ''device unavailable''),
       (''Echo Optimization'', ErrorEntry ''max() arg is an empty sequence''),
       (''Frequency Harmonization'', ErrorEntry ''timeout''),
       (''Spatial Audio'',
          ResultPair \<lparr>success = False, counts = [], execution_time = 1\<rparr>
            (ErrorReport ''quantum_audio_failed''))], ())"
proof -
  have a1: "analyze_audio_effectiveness
              \<lparr>success = True, counts = [(''0000'', 1)], execution_time = 1\<rparr>
            = Inr (AnalysisDict
              \<lparr>audio_quality = 1, optimal_audio = ''0000'', audio_diversity = 1,
               quantum_harmony = 0,
               audio_insights = [''Quantum audio synthesis achieved'',
                                 ''Consciousness-enhanced audio quantum-processed'',
                                 ''Fast audio processing achieved'']\<rparr>)"
    by (simp add: analyze_audio_effectiveness_def py_max_def int_truediv_def
        calculate_harmony_def math_log2_def generate_audio_insights_def)
  have a3: "analyze_audio_effectiveness \<lparr>success = True, counts = [], execution_time = 1\<rparr>
            = Inl (ValueError ''max() arg is an empty sequence'')"
    by (simp add: analyze_audio_effectiveness_def py_max_def)
  have a5: "analyze_audio_effectiveness \<lparr>success = False, counts = [], execution_time = 1\<rparr>
            = Inr (ErrorReport ''quantum_audio_failed'')"
    by (simp add: analyze_audio_effectiveness_def)
  have e1: "suite_entry (Inr \<lparr>success = True, counts = [(''0000'', 1)], execution_time = 1\<rparr>)
            = ResultPair \<lparr>success = True, counts = [(''0000'', 1)], execution_time = 1\<rparr>
            (AnalysisDict
              \<lparr>audio_quality = 1, optimal_audio = ''0000'', audio_diversity = 1,
               quantum_harmony = 0,
               audio_insights = [''Quantum audio synthesis achieved'',
                                 ''Consciousness-enhanced audio quantum-processed'',
                                 ''Fast audio processing achieved'']\<rparr>)"
    by (rule suite_entry_return [OF a1])
  have e2: "suite_entry (Inl (RaisedException ''device unavailable''))
            = ErrorEntry ''device unavailable''"
    by (simp only: suite_entry_raise str.simps)
  have e3: "suite_entry (Inr \<lparr>success = True, counts = [], execution_time = 1\<rparr>)
            = ErrorEntry ''max() arg is an empty sequence''"
    by (simp only: suite_entry_analysis_raise [OF a3] str.simps)
  have e4: "suite_entry (Inl (RaisedException ''timeout'')) = ErrorEntry ''timeout''"
    by (simp only: suite_entry_raise str.simps)
  have e5: "suite_entry (Inr \<lparr>success = False, counts = [], execution_time = 1\<rparr>)
            = ResultPair \<lparr>success = False, counts = [], execution_time = 1\<rparr>
                (ErrorReport ''quantum_audio_failed'')"
    by (rule suite_entry_return [OF a5])
  have "run_all_audio_operations
     \<lparr>quantum_audio_synthesis =
        Pair (Inr \<lparr>success = True, counts = [(''0000'', 1)], execution_time = 1\<rparr>),
      quantum_consciousness_audio = Pair (Inl (RaisedException ''device unavailable'')),
      quantum_echo_optimization =
        Pair (Inr \<lparr>success = True, counts = [], execution_time = 1\<rparr>),
      quantum_frequency_harmonization = Pair (Inl (RaisedException ''timeout'')),
      quantum_spatial_audio =
        Pair (Inr \<lparr>success = False, counts = [], execution_time = 1\<rparr>)\<rparr> ()
   = ([(''Audio Synthesis'',
          suite_entry (Inr \<lparr>success = True, counts = [(''0000'', 1)], execution_time = 1\<rparr>)),
       (''Consciousness Audio'', suite_entry (Inl (RaisedException ''device unavailable''))),
       (''Echo Optimization'',
          suite_entry (Inr \<lparr>success = True, counts = [], execution_time = 1\<rparr>)),
       (''Frequency Harmonization'', suite_entry (Inl (RaisedException ''timeout''))),
       (''Spatial Audio'',
          suite_entry (Inr \<lparr>success = False, counts = [], execution_time = 1\<rparr>))], ())"
    by (rule run_all_threads) simp_all
  then show ?thesis by (simp only: e1 e2 e3 e4 e5)
qed

text \<open>
  When the analysis of a returned result does not raise, the entry is an error marker
  exactly for a raised exception.
\<close>

lemma entry_of_outcome:
  assumes "\<forall>r. outcome = Inr r \<longrightarrow> (\<exists>a. analyze_audio_effectiveness r = Inr a)"
  shows "(case outcome of
            Inl e \<Rightarrow> suite_entry outcome = ErrorEntry (str e)
          | Inr r \<Rightarrow> (\<exists>a. analyze_audio_effectiveness r = Inr a
                         \<and> suite_entry outcome = ResultPair r a))"
    and "has_quantum_result (suite_entry outcome) \<longleftrightarrow> \<not> isl outcome"
proof -
  show "(case outcome of
            Inl e \<Rightarrow> suite_entry outcome = ErrorEntry (str e)
          | Inr r \<Rightarrow> (\<exists>a. analyze_audio_effectiveness r = Inr a
                         \<and> suite_entry outcome = ResultPair r a))"
  proof (cases outcome)
    case (Inl e)
    then show ?thesis by (simp add: suite_entry_raise)
  next
    case (Inr r)
    with assms obtain a where "analyze_audio_effectiveness r = Inr a" by blast
    with Inr show ?thesis by (simp add: suite_entry_return)
  qed
  then show "has_quantum_result (suite_entry outcome) \<longleftrightarrow> \<not> isl outcome"
    by (cases outcome) auto
qed


text \<open>
  C6, amended. Let the five operations be run in order, each on the state left by the one
  before, with outcomes \<open>o1 \<dots> o5\<close>. If exactly 2 of them raise and the analysis does not
  raise on the results the other 3 return, then the suite result has the 5 operation names
  as its keys, in order; the entry of a raising operation is the error marker with the
  description of its exception and the entry of a returning operation is the pair of its
  result and the analysis, so 3 entries hold a pair and 2 an error marker; and the final
  state is the one left by the fifth operation: every operation has been invoked.
\<close>

theorem suite_partial_failure:
  assumes "quantum_audio_synthesis self s0 = (o1, s1)"
    and "quantum_consciousness_audio self s1 = (o2, s2)"
    and "quantum_echo_optimization self s2 = (o3, s3)"
    and "quantum_frequency_harmonization self s3 = (o4, s4)"
    and "quantum_spatial_audio self s4 = (o5, s5)"
    and "length (filter isl [o1, o2, o3, o4, o5]) = 2"
    and "\<forall>r. Inr r \<in> set [o1, o2, o3, o4, o5]
           \<longrightarrow> (\<exists>a. analyze_audio_effectiveness r = Inr a)"
  shows "\<exists>e1 e2 e3 e4 e5.
           run_all_audio_operations self s0 =
             ([(''Audio Synthesis'', e1),
               (''Consciousness Audio'', e2),
               (''Echo Optimization'', e3),
               (''Frequency Harmonization'', e4),
               (''Spatial Audio'', e5)], s5)
         \<and> list_all2
             (\<lambda>outcome entry.
                case outcome of
                  Inl e \<Rightarrow> entry = ErrorEntry (str e)
                | Inr r \<Rightarrow> (\<exists>a. analyze_audio_effectiveness r = Inr a
                               \<and> entry = ResultPair r a))
             [o1, o2, o3, o4, o5] [e1, e2, e3, e4, e5]
         \<and> length (filter has_quantum_result [e1, e2, e3, e4, e5]) = 3
         \<and> length (filter (\<lambda>entry. \<not> has_quantum_result entry) [e1, e2, e3, e4, e5]) = 2"
proof -
  let ?os = "[o1, o2, o3, o4, o5]"
  have ok: "\<forall>r. outcome = Inr r \<longrightarrow> (\<exists>a. analyze_audio_effectiveness r = Inr a)"
    if "outcome \<in> set ?os" for outcome
    using that assms(7) by blast
  have run: "run_all_audio_operations self s0 =
           ([(''Audio Synthesis'', suite_entry o1),
             (''Consciousness Audio'', suite_entry o2),
             (''Echo Optimization'', suite_entry o3),
             (''Frequency Harmonization'', suite_entry o4),
             (''Spatial Audio'', suite_entry o5)], s5)"
    using assms(1-5) by (rule run_all_threads)
  have each: "case outcome of
                  Inl e \<Rightarrow> suite_entry outcome = ErrorEntry (str e)
                | Inr r \<Rightarrow> (\<exists>a. analyze_audio_effectiveness r = Inr a
                               \<and> suite_entry outcome = ResultPair r a)"
    if "outcome \<in> set ?os" for outcome
    using entry_of_outcome(1) [OF ok [OF that]] .
  have pairs: "list_all2
             (\<lambda>outcome entry.
                case outcome of
                  Inl e \<Rightarrow> entry = ErrorEntry (str e)
                | Inr r \<Rightarrow> (\<exists>a. analyze_audio_effectiveness r = Inr a
                               \<and> entry = ResultPair r a))
             ?os (map suite_entry ?os)"
    unfolding list_all2_map2 by (rule list_all2_same [THEN iffD2]) (use each in blast)
  have hq: "has_quantum_result (suite_entry outcome) \<longleftrightarrow> \<not> isl outcome"
    if "outcome \<in> set ?os" for outcome
    using entry_of_outcome(2) [OF ok [OF that]] .
  have "filter (\<lambda>outcome. \<not> has_quantum_result (suite_entry outcome)) ?os = filter isl ?os"
    by (rule filter_cong [OF refl]) (use hq in blast)
  then have errors: "length (filter (\<lambda>entry. \<not> has_quantum_result entry) (map suite_entry ?os)) = 2"
    unfolding filter_map o_def length_map using assms(6) by (simp only:)
  have "length (filter has_quantum_result (map suite_entry ?os))
        + length (filter (\<lambda>entry. \<not> has_quantum_result entry) (map suite_entry ?os))
        = length (map suite_entry ?os)"
    by (rule sum_length_filter_compl)
  with errors have results: "length (filter has_quantum_result (map suite_entry ?os)) = 3"
    by simp
  have m: "map suite_entry ?os
           = [suite_entry o1, suite_entry o2, suite_entry o3, suite_entry o4, suite_entry o5]"
    by simp
  from run pairs results errors show ?thesis
    unfolding m by blast
qed


theorem suite_partial_failure_witness:
  "run_all_audio_operations
     \<lparr>quantum_audio_synthesis =
        (\<lambda>log. (Inr \<lparr>success = True, counts = [(''0000'', 1)], execution_time = 1\<rparr>,
                 log @ [''synthesis''])),
      quantum_consciousness_audio =
        (\<lambda>log. (Inl (RaisedException ''device unavailable''), log @ [''consciousness''])),
      quantum_echo_optimization =
        (\<lambda>log. (Inr \<lparr>success = False, counts = [], execution_time = 2\<rparr>, log @ [''echo''])),
      quantum_frequency_harmonization =
        (\<lambda>log. (Inl (RaisedException ''timeout''), log @ [''frequency''])),
      quantum_spatial_audio =
        (\<lambda>log. (Inr \<lparr>success = True, counts = [(''0000'', 1)], execution_time = 1\<rparr>,
                 log @ [''spatial'']))\<rparr> []
   = ([(''Audio Synthesis'', ResultPair \<lparr>success = True, counts = [(''0000'', 1)], execution_time = 1\<rparr>
            (AnalysisDict
              \<lparr>audio_quality = 1, optimal_audio = ''0000'', audio_diversity = 1,
               quantum_harmony = 0,
               audio_insights = [''Quantum audio synthesis achieved'',
                                 ''Consciousness-enhanced audio quantum-processed'',
                                 ''Fast audio processing achieved'']\<rparr>)),
       (''Consciousness Audio'', ErrorEntry ''device unavailable''),
       (''Echo Optimization'', ResultPair \<lparr>success = False, counts = [], execution_time = 2\<rparr>
            (ErrorReport ''quantum_audio_failed'')),
       (''Frequency Harmonization'', ErrorEntry ''timeout''),
       (''Spatial Audio'', ResultPair \<lparr>success = True, counts = [(''0000'', 1)], execution_time = 1\<rparr>
            (AnalysisDict
              \<lparr>audio_quality = 1, optimal_audio = ''0000'', audio_diversity = 1,
               quantum_harmony = 0,
               audio_insights = [''Quantum audio synthesis achieved'',
                                 ''Consciousness-enhanced audio quantum-processed'',
                                 ''Fast audio processing achieved'']\<rparr>))],
      [''synthesis'', ''consciousness'', ''echo'', ''frequency'', ''spatial''])"
proof -
  have a1: "analyze_audio_effectiveness \<lparr>success = True, counts = [(''0000'', 1)], execution_time = 1\<rparr>
            = Inr (AnalysisDict
              \<lparr>audio_quality = 1, optimal_audio = ''0000'', audio_diversity = 1,
               quantum_harmony = 0,
               audio_insights = [''Quantum audio synthesis achieved'',
                                 ''Consciousness-enhanced audio quantum-processed'',
                                 ''Fast audio processing achieved'']\<rparr>)"
    by (simp add: analyze_audio_effectiveness_def py_max_def int_truediv_def
        calculate_harmony_def math_log2_def generate_audio_insights_def)
  have a3: "analyze_audio_effectiveness \<lparr>success = False, counts = [], execution_time = 2\<rparr>
            = Inr (ErrorReport ''quantum_audio_failed'')"
    by (simp add: analyze_audio_effectiveness_def)
  have two: "length (filter isl
      [Inr \<lparr>success = True, counts = [(''0000'', 1)], execution_time = 1\<rparr>,
       Inl (RaisedException ''device unavailable''),
       Inr \<lparr>success = False, counts = [], execution_time = 2\<rparr>,
       Inl (RaisedException ''timeout''),
       Inr \<lparr>success = True, counts = [(''0000'', 1)], execution_time = 1\<rparr>]) = 2"
    by simp
  have analysed: "\<forall>r. Inr r \<in> set
      [Inr \<lparr>success = True, counts = [(''0000'', 1)], execution_time = 1\<rparr>,
       Inl (RaisedException ''device unavailable''),
       Inr \<lparr>success = False, counts = [], execution_time = 2\<rparr>,
       Inl (RaisedException ''timeout''),
       Inr \<lparr>success = True, counts = [(''0000'', 1)], execution_time = 1\<rparr>]
      \<longrightarrow> (\<exists>a. analyze_audio_effectiveness r = Inr a)"
    using a1 a3 by auto
  from suite_partial_failure
    [of "\<lparr>quantum_audio_synthesis =
        (\<lambda>log. (Inr \<lparr>success = True, counts = [(''0000'', 1)], execution_time = 1\<rparr>,
                 log @ [''synthesis''])),
      quantum_consciousness_audio =
        (\<lambda>log. (Inl (RaisedException ''device unavailable''), log @ [''consciousness''])),
      quantum_echo_optimization =
        (\<lambda>log. (Inr \<lparr>success = False, counts = [], execution_time = 2\<rparr>, log @ [''echo''])),
      quantum_frequency_harmonization =
        (\<lambda>log. (Inl (RaisedException ''timeout''), log @ [''frequency''])),
      quantum_spatial_audio =
        (\<lambda>log. (Inr \<lparr>success = True, counts = [(''0000'', 1)], execution_time = 1\<rparr>,
                 log @ [''spatial'']))\<rparr>"
        "[]" _ "[''synthesis'']"
        _ "[''synthesis'', ''consciousness'']"
        _ "[''synthesis'', ''consciousness'', ''echo'']"
        _ "[''synthesis'', ''consciousness'', ''echo'', ''frequency'']"
        _ "[''synthesis'', ''consciousness'', ''echo'', ''frequency'', ''spatial'']",
     OF _ _ _ _ _ two analysed]
  show ?thesis
    by (simp add: a1 a3)
qed

subsection \<open>Recommendations of the aggregator\<close>

lemma metrics_dict_fields:
  assumes "get_audio_performance_metrics results = Inr (MetricsDict m)"
  shows "success_rate m =
           real (length (filter is_successful (map snd results))) / real (length results)"
    and "recommendations m =
           (if success_rate m \<ge> 0.8
            then [''Audio system ready for quantum-enhanced production'']
            else if success_rate m \<ge> 0.6
            then [''Audio system ready for advanced quantum processing'']
            else [])
           @ (if average_audio_quality m \<ge> 0.7
              then [''Conscious-level audio quality achieved'']
              else [])"
proof -
  define successful_ops where "successful_ops = filter is_successful (map snd results)"
  have ne: "successful_ops \<noteq> []"
  proof
    assume "successful_ops = []"
    then have "get_audio_performance_metrics results
                 = Inr (StatusMarker ''no_successful_audio_operations'')"
      unfolding get_audio_performance_metrics_def successful_ops_def [symmetric]
      by (simp add: Let_def)
    with assms show False by simp
  qed
  then have n1: "real (length successful_ops) \<noteq> 0" by simp
  have "results \<noteq> []"
    using ne unfolding successful_ops_def by (cases results) simp_all
  then have n2: "int (length results) \<noteq> 0" by simp
  have d1: "float_truediv x (real (length successful_ops)) = Inr (x / real (length successful_ops))" for x
    using n1 by (simp only: float_truediv_def if_False)
  have d2: "int_truediv x (int (length results)) = Inr (real_of_int x / real_of_int (int (length results)))" for x
    using n2 by (simp only: int_truediv_def if_False)
  have "Inr (MetricsDict m) = get_audio_performance_metrics results"
    using assms by simp
  also have "\<dots> = Inr (MetricsDict
                         \<lparr> total_audio_operations = length results,
                           successful_operations = length successful_ops,
                           success_rate = real_of_int (int (length successful_ops)) / real_of_int (int (length results)),
                           total_execution_time = sum_list (map entry_execution_time successful_ops),
                           average_execution_time = sum_list (map entry_execution_time successful_ops) / real (length successful_ops),
                           average_audio_quality = sum_list (map entry_audio_quality successful_ops) / real (length successful_ops),
                           audio_quantum_readiness =
                             (if length successful_ops \<ge> 4 then ''CONSCIOUS''
                              else if length successful_ops \<ge> 2 then ''HARMONIC''
                              else ''DEVELOPING''),
                           recommendations =
                             (if real_of_int (int (length successful_ops)) / real_of_int (int (length results)) \<ge> 0.8
                              then [''Audio system ready for quantum-enhanced production'']
                              else if real_of_int (int (length successful_ops)) / real_of_int (int (length results)) \<ge> 0.6
                              then [''Audio system ready for advanced quantum processing'']
                              else [])
                             @ (if sum_list (map entry_audio_quality successful_ops) / real (length successful_ops) \<ge> 0.7
                                then [''Conscious-level audio quality achieved'']
                                else []) \<rparr>)"
    unfolding get_audio_performance_metrics_def successful_ops_def [symmetric] Let_def
    using ne by (simp only: d1 d2 if_False sum.case)
  finally have m: "m = \<lparr> total_audio_operations = length results,
                           successful_operations = length successful_ops,
                           success_rate = real_of_int (int (length successful_ops)) / real_of_int (int (length results)),
                           total_execution_time = sum_list (map entry_execution_time successful_ops),
                           average_execution_time = sum_list (map entry_execution_time successful_ops) / real (length successful_ops),
                           average_audio_quality = sum_list (map entry_audio_quality successful_ops) / real (length successful_ops),
                           audio_quantum_readiness =
                             (if length successful_ops \<ge> 4 then ''CONSCIOUS''
                              else if length successful_ops \<ge> 2 then ''HARMONIC''
                              else ''DEVELOPING''),
                           recommendations =
                             (if real_of_int (int (length successful_ops)) / real_of_int (int (length results)) \<ge> 0.8
                              then [''Audio system ready for quantum-enhanced production'']
                              else if real_of_int (int (length successful_ops)) / real_of_int (int (length results)) \<ge> 0.6
                              then [''Audio system ready for advanced quantum processing'']
                              else [])
                             @ (if sum_list (map entry_audio_quality successful_ops) / real (length successful_ops) \<ge> 0.7
                                then [''Conscious-level audio quality achieved'']
                                else []) \<rparr>"
    by (simp only: sum.inject PerformanceMetrics.inject)
  show "success_rate m =
           real (length (filter is_successful (map snd results))) / real (length results)"
    unfolding successful_ops_def [symmetric] by (subst m) (simp only: Metrics.simps of_int_of_nat_eq)
  show "recommendations m =
           (if success_rate m \<ge> 0.8
            then [''Audio system ready for quantum-enhanced production'']
            else if success_rate m \<ge> 0.6
            then [''Audio system ready for advanced quantum processing'']
            else [])
           @ (if average_audio_quality m \<ge> 0.7
              then [''Conscious-level audio quality achieved'']
              else [])"
    by (subst (1 2 3 4) m) (simp only: Metrics.simps)
qed


text \<open>
  C7. Whenever the aggregator returns metrics whose \<^verbatim>\<open>success_rate\<close> is exactly 0.8,
  the recommendations contain the production-ready recommendation of the \<open>\<ge> 0.8\<close>
  branch (and not the one of the \<open>\<ge> 0.6\<close> branch): the threshold is inclusive.
\<close>

theorem rate_boundary_inclusive:
  assumes "get_audio_performance_metrics results = Inr (MetricsDict m)"
    and "success_rate m = 0.8"
  shows "''Audio system ready for quantum-enhanced production'' \<in> set (recommendations m)
       \<and> ''Audio system ready for advanced quantum processing'' \<notin> set (recommendations m)"
  using metrics_dict_fields(2) [OF assms(1)] assms(2) by simp

theorem rate_boundary_inclusive_witness:
  "get_audio_performance_metrics
     [(''Audio Synthesis'',
         ResultPair \<lparr>success = True, counts = [(''0101'', 1)], execution_time = 2\<rparr>
           (AnalysisDict \<lparr>audio_quality = 1 / 2, optimal_audio = ''0101'', audio_diversity = 1,
              quantum_harmony = 0, audio_insights = []\<rparr>)),
      (''Consciousness Audio'',
         ResultPair \<lparr>success = True, counts = [(''0101'', 1)], execution_time = 2\<rparr>
           (AnalysisDict \<lparr>audio_quality = 1 / 2, optimal_audio = ''0101'', audio_diversity = 1,
              quantum_harmony = 0, audio_insights = []\<rparr>)),
      (''Echo Optimization'', ErrorEntry ''device unavailable''),
      (''Frequency Harmonization'',
         ResultPair \<lparr>success = True, counts = [(''0101'', 1)], execution_time = 2\<rparr>
           (AnalysisDict \<lparr>audio_quality = 1 / 2, optimal_audio = ''0101'', audio_diversity = 1,
              quantum_harmony = 0, audio_insights = []\<rparr>)),
      (''Spatial Audio'',
         ResultPair \<lparr>success = True, counts = [(''0101'', 1)], execution_time = 2\<rparr>
           (AnalysisDict \<lparr>audio_quality = 1 / 2, optimal_audio = ''0101'', audio_diversity = 1,
              quantum_harmony = 0, audio_insights = []\<rparr>))]
   = Inr (MetricsDict
       \<lparr>total_audio_operations = 5, successful_operations = 4, success_rate = 0.8,
        total_execution_time = 8, average_execution_time = 2, average_audio_quality = 1 / 2,
        audio_quantum_readiness = ''CONSCIOUS'',
        recommendations = [''Audio system ready for quantum-enhanced production'']\<rparr>)
   \<and> ''Audio system ready for quantum-enhanced production''
       \<in> set (recommendations
       \<lparr>total_audio_operations = 5, successful_operations = 4, success_rate = 0.8,
        total_execution_time = 8, average_execution_time = 2, average_audio_quality = 1 / 2,
        audio_quantum_readiness = ''CONSCIOUS'',
        recommendations = [''Audio system ready for quantum-enhanced production'']\<rparr>)"
proof -
  have e: "get_audio_performance_metrics
     [(''Audio Synthesis'',
         ResultPair \<lparr>success = True, counts = [(''0101'', 1)], execution_time = 2\<rparr>
           (AnalysisDict \<lparr>audio_quality = 1 / 2, optimal_audio = ''0101'', audio_diversity = 1,
              quantum_harmony = 0, audio_insights = []\<rparr>)),
      (''Consciousness Audio'',
         ResultPair \<lparr>success = True, counts = [(''0101'', 1)], execution_time = 2\<rparr>
           (AnalysisDict \<lparr>audio_quality = 1 / 2, optimal_audio = ''0101'', audio_diversity = 1,
              quantum_harmony = 0, audio_insights = []\<rparr>)),
      (''Echo Optimization'', ErrorEntry ''device unavailable''),
      (''Frequency Harmonization'',
         ResultPair \<lparr>success = True, counts = [(''0101'', 1)], execution_time = 2\<rparr>
           (AnalysisDict \<lparr>audio_quality = 1 / 2, optimal_audio = ''0101'', audio_diversity = 1,
              quantum_harmony = 0, audio_insights = []\<rparr>)),
      (''Spatial Audio'',
         ResultPair \<lparr>success = True, counts = [(''0101'', 1)], execution_time = 2\<rparr>
           (AnalysisDict \<lparr>audio_quality = 1 / 2, optimal_audio = ''0101'', audio_diversity = 1,
              quantum_harmony = 0, audio_insights = []\<rparr>))]
   = Inr (MetricsDict
       \<lparr>total_audio_operations = 5, successful_operations = 4, success_rate = 0.8,
        total_execution_time = 8, average_execution_time = 2, average_audio_quality = 1 / 2,
        audio_quantum_readiness = ''CONSCIOUS'',
        recommendations = [''Audio system ready for quantum-enhanced production'']\<rparr>)"
    by (simp add: get_audio_performance_metrics_def float_truediv_def int_truediv_def)
  show ?thesis
    using rate_boundary_inclusive [OF e] e by simp
qed

text \<open>
  C10. In every metrics dictionary returned by the aggregator the two recommendations gated
  on the success rate never occur together, at most one entry is a success-rate
  recommendation, at most one is the average-quality recommendation, and the list has at
  most 2 entries.
\<close>

theorem recommendations_at_most_two:
  assumes "get_audio_performance_metrics results = Inr (MetricsDict m)"
  shows "length (recommendations m) \<le> 2
       \<and> \<not> (''Audio system ready for quantum-enhanced production'' \<in> set (recommendations m)
            \<and> ''Audio system ready for advanced quantum processing'' \<in> set (recommendations m))
       \<and> length (filter (\<lambda>x. x = ''Audio system ready for quantum-enhanced production''
                            \<or> x = ''Audio system ready for advanced quantum processing'')
                    (recommendations m)) \<le> 1
       \<and> length (filter (\<lambda>x. x = ''Conscious-level audio quality achieved'')
                    (recommendations m)) \<le> 1"
  using metrics_dict_fields(2) [OF assms] by simp

theorem recommendations_at_most_two_witness:
  "get_audio_performance_metrics
     [(''Audio Synthesis'',
         ResultPair \<lparr>success = True, counts = [(''0101'', 9), (''1010'', 1)], execution_time = 1\<rparr>
           (AnalysisDict \<lparr>audio_quality = 9 / 10, optimal_audio = ''0101'', audio_diversity = 2,
              quantum_harmony = 1 / 10, audio_insights = []\<rparr>)),
      (''Consciousness Audio'', ErrorEntry ''device unavailable''),
      (''Echo Optimization'',
         ResultPair \<lparr>success = True, counts = [(''0101'', 9), (''1010'', 1)], execution_time = 1\<rparr>
           (AnalysisDict \<lparr>audio_quality = 9 / 10, optimal_audio = ''0101'', audio_diversity = 2,
              quantum_harmony = 1 / 10, audio_insights = []\<rparr>)),
      (''Frequency Harmonization'',
         ResultPair \<lparr>success = False, counts = [], execution_time = 1\<rparr>
           (ErrorReport ''quantum_audio_failed'')),
      (''Spatial Audio'',
         ResultPair \<lparr>success = True, counts = [(''0101'', 9), (''1010'', 1)], execution_time = 1\<rparr>
           (AnalysisDict \<lparr>audio_quality = 9 / 10, optimal_audio = ''0101'', audio_diversity = 2,
              quantum_harmony = 1 / 10, audio_insights = []\<rparr>))]
   = Inr (MetricsDict
       \<lparr>total_audio_operations = 5, successful_operations = 3, success_rate = 3 / 5,
        total_execution_time = 3, average_execution_time = 1, average_audio_quality = 9 / 10,
        audio_quantum_readiness = ''HARMONIC'',
        recommendations = [''Audio system ready for advanced quantum processing'',
                           ''Conscious-level audio quality achieved'']\<rparr>)
   \<and> length (recommendations
       \<lparr>total_audio_operations = 5, successful_operations = 3, success_rate = 3 / 5,
        total_execution_time = 3, average_execution_time = 1, average_audio_quality = 9 / 10,
        audio_quantum_readiness = ''HARMONIC'',
        recommendations = [''Audio system ready for advanced quantum processing'',
                           ''Conscious-level audio quality achieved'']\<rparr>) \<le> 2"
proof -
  have e: "get_audio_performance_metrics
     [(''Audio Synthesis'',
         ResultPair \<lparr>success = True, counts = [(''0101'', 9), (''1010'', 1)], execution_time = 1\<rparr>
           (AnalysisDict \<lparr>audio_quality = 9 / 10, optimal_audio = ''0101'', audio_diversity = 2,
              quantum_harmony = 1 / 10, audio_insights = []\<rparr>)),
      (''Consciousness Audio'', ErrorEntry ''device unavailable''),
      (''Echo Optimization'',
         ResultPair \<lparr>success = True, counts = [(''0101'', 9), (''1010'', 1)], execution_time = 1\<rparr>
           (AnalysisDict \<lparr>audio_quality = 9 / 10, optimal_audio = ''0101'', audio_diversity = 2,
              quantum_harmony = 1 / 10, audio_insights = []\<rparr>)),
      (''Frequency Harmonization'',
         ResultPair \<lparr>success = False, counts = [], execution_time = 1\<rparr>
           (ErrorReport ''quantum_audio_failed'')),
      (''Spatial Audio'',
         ResultPair \<lparr>success = True, counts = [(''0101'', 9), (''1010'', 1)], execution_time = 1\<rparr>
           (AnalysisDict \<lparr>audio_quality = 9 / 10, optimal_audio = ''0101'', audio_diversity = 2,
              quantum_harmony = 1 / 10, audio_insights = []\<rparr>))]
   = Inr (MetricsDict
       \<lparr>total_audio_operations = 5, successful_operations = 3, success_rate = 3 / 5,
        total_execution_time = 3, average_execution_time = 1, average_audio_quality = 9 / 10,
        audio_quantum_readiness = ''HARMONIC'',
        recommendations = [''Audio system ready for advanced quantum processing'',
                           ''Conscious-level audio quality achieved'']\<rparr>)"
    by (simp add: get_audio_performance_metrics_def float_truediv_def int_truediv_def)
  show ?thesis
    using recommendations_at_most_two [OF e] e by simp
qed

end
